theory Spec2Isabelle
  imports Complex_Main "HOL-Library.AList" "HOL-Library.Sublist"
begin

section \<open>JavaScript values\<close>

text \<open>
  The part of JavaScript's value universe that the publisher observes: the manifest
  \<^verbatim>\<open>updates.json\<close> is parsed JSON, and the code looks at such values through
  \<^verbatim>\<open>typeof\<close>, truthiness, \<^verbatim>\<open>===\<close> and named property access only.
  An object is the list of its own properties in insertion order (an array is an object
  whose keys are its indices). Numbers are integers here: the code never calculates with
  a manifest's numbers, it only tests them for being falsy.

  A lookup \<^verbatim>\<open>object[key]\<close> also finds what \<^verbatim>\<open>Object.prototype\<close> holds
  (\<^verbatim>\<open>constructor\<close>, \<^verbatim>\<open>toString\<close>, \<^verbatim>\<open>__proto__\<close>, ...). Build ids hold a
  hyphen and so differ from all those names. File paths are looked up in the cache of
  uploads, and that lookup is modelled with the inherited properties (see
  \<open>fetch_url\<close>). Asset names are taken to differ from those names; the theorem on
  uploads says so in its hypotheses.
\<close>

datatype jsval =
    JUndefined
  | JNull
  | JBool bool
  | JNum int
  | JStr string
  | JObj "(string \<times> jsval) list"

datatype js_error =
    Error string      \<comment> \<open>\<^verbatim>\<open>new Error(message)\<close>\<close>
  | TypeError         \<comment> \<open>raised by the language or by Node's argument checks\<close>
  | RangeError
  | Rejected string   \<comment> \<open>a failure reported by the network, the file system or a backend\<close>

fun typeof :: "jsval \<Rightarrow> string" where
  "typeof JUndefined = ''undefined''"
| "typeof JNull = ''object''"
| "typeof (JBool b) = ''boolean''"
| "typeof (JNum n) = ''number''"
| "typeof (JStr s) = ''string''"
| "typeof (JObj ps) = ''object''"

fun truthy :: "jsval \<Rightarrow> bool" where
  "truthy JUndefined = False"
| "truthy JNull = False"
| "truthy (JBool b) = b"
| "truthy (JNum n) = (n \<noteq> 0)"
| "truthy (JStr s) = (s \<noteq> [])"
| "truthy (JObj ps) = True"

text \<open>
  \<^verbatim>\<open>a === b\<close>. Primitives are compared by value. Objects are compared by identity:
  wherever the code compares, one side was just parsed from the manifest's text, so two
  objects are never the same one.
\<close>

fun strict_eq :: "jsval \<Rightarrow> jsval \<Rightarrow> bool" where
  "strict_eq (JObj ps) b = False"
| "strict_eq a (JObj qs) = False"
| "strict_eq a b = (a = b)"

text \<open>
  \<^verbatim>\<open>v[key]\<close> as a read: an own property of an object, \<^verbatim>\<open>undefined\<close> when there
  is none and on a boolean, number or string (the keys read are build ids and
  \<^verbatim>\<open>version\<close>, which no primitive has); a TypeError on \<^verbatim>\<open>null\<close> and
  \<^verbatim>\<open>undefined\<close>.
\<close>

fun get_prop :: "jsval \<Rightarrow> string \<Rightarrow> js_error + jsval" where
  "get_prop JUndefined k = Inl TypeError"
| "get_prop JNull k = Inl TypeError"
| "get_prop (JObj ps) k = Inr (case map_of ps k of None \<Rightarrow> JUndefined | Some v \<Rightarrow> v)"
| "get_prop v k = Inr JUndefined"

text \<open>
  \<^verbatim>\<open>v[key] = x\<close> in strict mode (both source files start with \<^verbatim>\<open>'use strict'\<close>):
  an object gets or overwrites its own property; on any primitive the assignment throws.
\<close>

fun set_prop :: "jsval \<Rightarrow> string \<Rightarrow> jsval \<Rightarrow> js_error + jsval" where
  "set_prop (JObj ps) k x = Inr (JObj (AList.update k x ps))"
| "set_prop v k x = Inl TypeError"

text \<open>\<^verbatim>\<open>delete v[key]\<close>: removes an object's own property; nothing to do on a primitive.\<close>

fun delete_prop :: "jsval \<Rightarrow> string \<Rightarrow> js_error + jsval" where
  "delete_prop JUndefined k = Inl TypeError"
| "delete_prop JNull k = Inl TypeError"
| "delete_prop (JObj ps) k = Inr (JObj (AList.delete k ps))"
| "delete_prop v k = Inr v"

section \<open>Builds and build ids\<close>

text \<open>
  A build names a platform, an architecture, a channel and a version. Each is a string,
  or absent (\<^verbatim>\<open>undefined\<close>, here \<open>None\<close>): that is what splitting a build id and
  reading \<^verbatim>\<open>package.json\<close> produce. The command options carry the same four fields
  as defaults; a build that is published also carries its assets, a mapping from asset
  names to local file paths, listed in the order \<^verbatim>\<open>for ... in\<close> enumerates them.
\<close>

record build =
  platform :: "string option"
  arch :: "string option"
  channel :: "string option"
  version :: "string option"

record asset_build = build +
  assets :: "(string \<times> string) list"

record options = build +
  command :: "string option"
  builds :: "build list"

text \<open>A template literal's \<^verbatim>\<open>${x}\<close> and the truthiness of a string-or-undefined.\<close>

fun to_string :: "string option \<Rightarrow> string" where
  "to_string None = ''undefined''"
| "to_string (Some s) = s"

fun to_jsval :: "string option \<Rightarrow> jsval" where
  "to_jsval None = JUndefined"
| "to_jsval (Some s) = JStr s"

fun given :: "string option \<Rightarrow> bool" where
  "given None = False"
| "given (Some s) = (s \<noteq> [])"

text \<open>\<^verbatim>\<open>parts.join(sep)\<close>.\<close>

fun join :: "string \<Rightarrow> string list \<Rightarrow> string" where
  "join sep [] = []"
| "join sep [x] = x"
| "join sep (x # y # ys) = x @ sep @ join sep (y # ys)"

text \<open>
  \<^verbatim>\<open>getBuildId(build, includeVersion)\<close> of the abstract transport, for a build that is
  passed (the fallback to the command options applies to a missing build only).
\<close>

definition getBuildId :: "'a build_scheme \<Rightarrow> bool \<Rightarrow> string" where
  "getBuildId b includeVersion =
     (let parts = [to_string (platform b), to_string (arch b), to_string (channel b)];
          parts = (if includeVersion then parts @ [''v'' @ to_string (version b)] else parts)
      in join ''-'' parts)"

section \<open>The manifest: fetching and updating \<^verbatim>\<open>updates.json\<close>\<close>

text \<open>
  What \<^verbatim>\<open>http.get\<close> hands to its callback: an error, or a response with a status
  code and a body.
\<close>

record http_response =
  statusCode :: int
  body :: string

text \<open>
  \<^verbatim>\<open>fetchUpdatesJson\<close>. \<^verbatim>\<open>JSON.parse\<close> is a parameter: \<open>None\<close> where it throws.
  The promise is rejected (\<open>Inl\<close>) on an error of the request itself, and resolved
  with \<^verbatim>\<open>{}\<close> on a status other than 200 and on a body that does not parse.
\<close>

definition fetchUpdatesJson ::
  "(string \<Rightarrow> jsval option) \<Rightarrow> js_error + http_response \<Rightarrow> js_error + jsval" where
  "fetchUpdatesJson json_parse got =
     (case got of
        Inl err \<Rightarrow> Inl err
      | Inr res \<Rightarrow>
          if statusCode res \<noteq> 200 then Inr (JObj [])
          else (case json_parse (body res) of
                  Some v \<Rightarrow> Inr v
                | None \<Rightarrow> Inr (JObj [])))"

text \<open>
  The first \<^verbatim>\<open>then\<close> callback of \<^verbatim>\<open>updateUpdatesJson\<close>: the fetched manifest with
  one build's section written or removed.
\<close>

definition update_section :: "'a build_scheme \<Rightarrow> jsval \<Rightarrow> jsval \<Rightarrow> js_error + jsval" where
  "update_section b data fetched =
     (let json = (if truthy fetched then fetched else JObj []);
          buildId = getBuildId b False
      in if typeof data = ''object'' then set_prop json buildId data
         else (case get_prop json buildId of
                 Inl e \<Rightarrow> Inl e
               | Inr entry \<Rightarrow>
                   if \<not> truthy entry then Inr json
                   else (case get_prop entry ''version'' of
                           Inl e \<Rightarrow> Inl e
                         | Inr v \<Rightarrow>
                             if strict_eq (to_jsval (version b)) v
                             then delete_prop json buildId
                             else Inr json)))"

text \<open>
  \<^verbatim>\<open>updateUpdatesJson(build, data)\<close>: fetch, update one section, push. The outcome of
  the transport's \<^verbatim>\<open>fetchUpdatesJson\<close> and its \<^verbatim>\<open>pushUpdatesJson\<close> are parameters;
  a rejection anywhere rejects the whole chain.
\<close>

definition updateUpdatesJson ::
  "js_error + jsval \<Rightarrow> (jsval \<Rightarrow> js_error + 'r) \<Rightarrow> 'a build_scheme \<Rightarrow> jsval \<Rightarrow> js_error + 'r" where
  "updateUpdatesJson fetched pushUpdatesJson b data =
     (case fetched of
        Inl e \<Rightarrow> Inl e
      | Inr json \<Rightarrow>
          (case update_section b data json of
             Inl e \<Rightarrow> Inl e
           | Inr json' \<Rightarrow> pushUpdatesJson json'))"

section \<open>File names and URLs\<close>

text \<open>
  Strings are lists of 8-bit characters, read as the code units below 256. Among them the
  regular expression class \<^verbatim>\<open>\s\<close> holds tab, line feed, vertical tab, form feed,
  carriage return, space and the no-break space.
\<close>

definition is_space :: "char \<Rightarrow> bool" where
  "is_space c \<longleftrightarrow> c \<in> set [CHR 0x09, CHR 0x0A, CHR 0x0B, CHR 0x0C, CHR 0x0D, CHR '' '', CHR 0xA0]"

text \<open>
  Node's \<^verbatim>\<open>path.basename\<close> for POSIX paths (a library function, written out from its
  documented behaviour): trailing slashes are dropped, then everything up to the last
  slash; the empty string when nothing but slashes is left.
\<close>

definition basename :: "string \<Rightarrow> string" where
  "basename p =
     (let q = dropWhile (\<lambda>c. c = CHR ''/'') (rev p)
      in rev (takeWhile (\<lambda>c. c \<noteq> CHR ''/'') q))"

text \<open>
  \<^verbatim>\<open>normalizeFileName\<close>: the base name, with \<^verbatim>\<open>replace(/\s/g, '-')\<close> putting a
  hyphen in place of each whitespace character.
\<close>

definition normalizeFileName :: "string \<Rightarrow> string" where
  "normalizeFileName fileName =
     map (\<lambda>c. if is_space c then CHR ''-'' else c) (basename fileName)"



text \<open>
  \<^verbatim>\<open>s.replace(pattern, replacement)\<close> with a string pattern: the first occurrence only.
  (The replacement is taken literally; the code's only replacement is the empty string.)
\<close>

fun replace_first :: "string \<Rightarrow> string \<Rightarrow> string \<Rightarrow> string" where
  "replace_first pat rep [] = (if pat = [] then rep else [])"
| "replace_first pat rep (c # cs) =
     (if prefix pat (c # cs) then rep @ drop (length pat) (c # cs)
      else c # replace_first pat rep cs)"

section \<open>Publishing a build's assets\<close>

text \<open>
  The transport is a parameter: \<^verbatim>\<open>uploadFile\<close> is abstract in the source, and
  \<^verbatim>\<open>duplicateMetaFiles\<close> copies a file into the local mirror. Both act on a backend
  state \<open>'s\<close> (the network, the file system) and may fail. An upload resolves with any
  value; the code expects a URL string or something falsy. Every call is recorded, in
  order, whether it fails or not.
\<close>

datatype event = UploadFile string | DuplicateMetaFiles string

record 's transport =
  uploadFile :: "string \<Rightarrow> asset_build \<Rightarrow> 's \<Rightarrow> (js_error + jsval) \<times> 's"
  duplicateMetaFiles :: "string \<Rightarrow> asset_build \<Rightarrow> 's \<Rightarrow> (js_error + unit) \<times> 's"

text \<open>
  The object \<^verbatim>\<open>result\<close> of \<^verbatim>\<open>publishAssets\<close>: one property per asset name, and the
  nested object \<^verbatim>\<open>result.local\<close>. The two are kept apart here; the one asset name
  that would overwrite the nested object, \<^verbatim>\<open>local\<close>, is treated in \<open>record_url\<close>.
\<close>

record asset_result =
  urls :: "(string \<times> jsval) list"
  local :: "(string \<times> string) list"

record 's publishing =
  result :: asset_result
  uploaded :: "(string \<times> jsval) list"
  backend :: 's
  calls :: "event list"

text \<open>
  The own property names of \<^verbatim>\<open>Object.prototype\<close> in Node. The cache
  \<^verbatim>\<open>uploaded\<close> is a plain object, so \<^verbatim>\<open>uploaded[filePath]\<close> for one of these
  names is the inherited function (for \<^verbatim>\<open>__proto__\<close> the prototype object) as long
  as the cache holds no own property of that name.
\<close>

definition object_prototype_names :: "string list" where
  "object_prototype_names =
     [''constructor'', ''__defineGetter__'', ''__defineSetter__'', ''hasOwnProperty'',
      ''__lookupGetter__'', ''__lookupSetter__'', ''isPrototypeOf'', ''propertyIsEnumerable'',
      ''toString'', ''valueOf'', ''__proto__'', ''toLocaleString'']"

text \<open>
  What the first callback resolves with: a value (the URL of an upload, or the cached
  one), or the function or object inherited from \<^verbatim>\<open>Object.prototype\<close> under the
  given name.
\<close>

datatype resolved = FileUrl jsval | Inherited string

text \<open>
  The three \<^verbatim>\<open>then\<close> callbacks that the loop of \<^verbatim>\<open>publishAssets\<close> chains for one
  asset. First: upload, unless \<^verbatim>\<open>uploaded[filePath]\<close> is something other than
  \<^verbatim>\<open>undefined\<close>: a cached value (the cache never holds \<^verbatim>\<open>undefined\<close>), or an
  inherited property.
\<close>

definition fetch_url ::
  "'s transport \<Rightarrow> asset_build \<Rightarrow> string \<Rightarrow> 's publishing
     \<Rightarrow> (js_error + resolved) \<times> 's publishing" where
  "fetch_url t b filePath st =
     (case map_of (uploaded st) filePath of
        Some cached \<Rightarrow> (Inr (FileUrl cached), st)
      | None \<Rightarrow>
          if filePath \<in> set object_prototype_names then (Inr (Inherited filePath), st)
          else
            (case uploadFile t filePath b (backend st) of
               (r, s') \<Rightarrow>
                 (case r of Inl e \<Rightarrow> Inl e | Inr fileUrl \<Rightarrow> Inr (FileUrl fileUrl),
                  st\<lparr>backend := s', calls := calls st @ [UploadFile filePath]\<rparr>)))"

text \<open>Second: the copy into the local mirror.\<close>

definition mirror ::
  "'s transport \<Rightarrow> asset_build \<Rightarrow> string \<Rightarrow> 's publishing \<Rightarrow> (js_error + unit) \<times> 's publishing" where
  "mirror t b filePath st =
     (case duplicateMetaFiles t filePath b (backend st) of
        (r, s') \<Rightarrow> (r, st\<lparr>backend := s', calls := calls st @ [DuplicateMetaFiles filePath]\<rparr>))"

text \<open>
  Third: a truthy URL is entered in \<^verbatim>\<open>result\<close> and \<^verbatim>\<open>result.local\<close>, and the cache
  gets \<^verbatim>\<open>fileUrl || ''\<close>. \<^verbatim>\<open>path.basename\<close> throws a TypeError on anything but a
  string. Under the asset name \<^verbatim>\<open>local\<close> the first assignment replaces the nested
  object by the URL string, and the second, a property assignment on a string, throws in
  strict mode.
\<close>

definition record_url ::
  "asset_build \<Rightarrow> string \<Rightarrow> string \<Rightarrow> jsval \<Rightarrow> 's publishing \<Rightarrow> js_error + 's publishing" where
  "record_url b name filePath fileUrl st =
     (if truthy fileUrl then
        (case fileUrl of
           JStr u \<Rightarrow>
             if name = ''local'' then Inl TypeError
             else Inr (st\<lparr>result :=
                            \<lparr>urls = AList.update name fileUrl (urls (result st)),
                             local = AList.update name
                                       (join ''/'' [getBuildId b True, basename u])
                                       (local (result st))\<rparr>,
                          uploaded := AList.update filePath fileUrl (uploaded st)\<rparr>)
         | _ \<Rightarrow> Inl TypeError)
      else Inr (st\<lparr>uploaded := AList.update filePath (JStr []) (uploaded st)\<rparr>))"

text \<open>
  The three callbacks in a row, as one turn of the loop chains them for an asset. An
  inherited function or object passes the second callback and is truthy in the third,
  where \<^verbatim>\<open>path.basename\<close> throws its TypeError on it.
\<close>

definition publish_one ::
  "'s transport \<Rightarrow> asset_build \<Rightarrow> string \<Rightarrow> string \<Rightarrow> 's publishing
     \<Rightarrow> js_error option \<times> 's publishing" where
  "publish_one t b name filePath st =
     (case fetch_url t b filePath st of
        (Inl e, st1) \<Rightarrow> (Some e, st1)
      | (Inr got, st1) \<Rightarrow>
          (case mirror t b filePath st1 of
             (Inl e, st2) \<Rightarrow> (Some e, st2)
           | (Inr copied, st2) \<Rightarrow>
               (case got of
                  Inherited property \<Rightarrow> (Some TypeError, st2)
                | FileUrl fileUrl \<Rightarrow>
                    (case record_url b name filePath fileUrl st2 of
                       Inl e \<Rightarrow> (Some e, st2)
                     | Inr st3 \<Rightarrow> (None, st3)))))"

text \<open>
  The chain over all assets, one after the other; the first rejection ends it. The state
  reached is returned with the error, so that the calls made can be counted either way.
\<close>

fun publish_each ::
  "'s transport \<Rightarrow> asset_build \<Rightarrow> (string \<times> string) list \<Rightarrow> 's publishing
     \<Rightarrow> js_error option \<times> 's publishing" where
  "publish_each t b [] st = (None, st)"
| "publish_each t b ((name, filePath) # rest) st =
     (case publish_one t b name filePath st of
        (Some e, st') \<Rightarrow> (Some e, st')
      | (None, st') \<Rightarrow> publish_each t b rest st')"

definition start :: "'s \<Rightarrow> 's publishing" where
  "start s = \<lparr>result = \<lparr>urls = [], local = []\<rparr>, uploaded = [], backend = s, calls = []\<rparr>"

text \<open>
  \<^verbatim>\<open>publishAssets(build, transport)\<close>: the outcome, the backend's final state and the
  calls made on the transport.
\<close>

definition publishAssets ::
  "asset_build \<Rightarrow> 's transport \<Rightarrow> 's \<Rightarrow> (js_error + asset_result) \<times> 's \<times> event list" where
  "publishAssets b t s =
     (if assets b = [] then
        (Inl (Error (''There are no assets for build '' @ getBuildId b True
                      @ ''. Check the dist folder.'')), s, [])
      else
        (case publish_each t b (assets b) (start s) of
           (Some e, st) \<Rightarrow> (Inl e, backend st, calls st)
         | (None, st) \<Rightarrow> (Inr (result st), backend st, calls st)))"

section \<open>The manifest record of a published build\<close>

text \<open>\<^verbatim>\<open>assets[name]\<close> and \<^verbatim>\<open>assets.local[name]\<close>, \<^verbatim>\<open>undefined\<close> when absent.\<close>

definition asset_url :: "asset_result \<Rightarrow> string \<Rightarrow> jsval" where
  "asset_url a name = (case map_of (urls a) name of None \<Rightarrow> JUndefined | Some v \<Rightarrow> v)"

definition asset_local :: "asset_result \<Rightarrow> string \<Rightarrow> jsval" where
  "asset_local a name = to_jsval (map_of (local a) name)"

text \<open>\<^verbatim>\<open>Object.assign(target, source)\<close> on own properties.\<close>

definition assign :: "(string \<times> jsval) list \<Rightarrow> (string \<times> jsval) list \<Rightarrow> (string \<times> jsval) list" where
  "assign target source = fold (\<lambda>(k, v). AList.update k v) source target"

text \<open>\<^verbatim>\<open>x.replace('/RELEASES', '')\<close>: a TypeError unless \<open>x\<close> is a string.\<close>

fun strip_releases :: "jsval \<Rightarrow> js_error + jsval" where
  "strip_releases (JStr s) = Inr (JStr (replace_first ''/RELEASES'' [] s))"
| "strip_releases v = Inl TypeError"

text \<open>
  The callback of \<^verbatim>\<open>publish\<close> that builds the manifest record \<^verbatim>\<open>data\<close> from the
  configured \<^verbatim>\<open>options.fields\<close>, the build and the published assets.
\<close>

definition publish_data ::
  "(string \<times> jsval) list \<Rightarrow> asset_build \<Rightarrow> asset_result \<Rightarrow> js_error + jsval" where
  "publish_data user_fields b a =
     (let data = assign (assign [] user_fields)
                   [(''update'', asset_url a ''update''),
                    (''update-local'', asset_local a ''update''),
                    (''install'', asset_url a ''install''),
                    (''install-local'', asset_local a ''install''),
                    (''version'', to_jsval (version b))]
      in if platform b = Some ''win32'' then
           (case strip_releases (asset_url a ''metaFile'') of
              Inl e \<Rightarrow> Inl e
            | Inr u \<Rightarrow>
                (case strip_releases (asset_local a ''metaFile'') of
                   Inl e \<Rightarrow> Inl e
                 | Inr l \<Rightarrow>
                     Inr (JObj (AList.update ''update-local'' l
                                 (AList.update ''update'' u data)))))
         else Inr (JObj data))"

section \<open>Progress display\<close>

text \<open>
  The numbers of \<^verbatim>\<open>onProgress\<close>: a finite value, \<^verbatim>\<open>NaN\<close> or \<^verbatim>\<open>Infinity\<close>. Byte
  counts are natural numbers. The rounding of a quotient or product to a double is the
  parameter \<open>fl\<close>; dividing by zero does not round and does not throw.
\<close>

datatype jsnum = Finite rat | NaN | PosInfinity

definition num_div :: "(rat \<Rightarrow> rat) \<Rightarrow> nat \<Rightarrow> nat \<Rightarrow> jsnum" where
  "num_div fl a b =
     (if b = 0 then (if a = 0 then NaN else PosInfinity)
      else Finite (fl (of_nat a / of_nat b)))"

text \<open>\<^verbatim>\<open>k * x\<close> for a positive constant \<open>k\<close>.\<close>

fun num_times :: "(rat \<Rightarrow> rat) \<Rightarrow> rat \<Rightarrow> jsnum \<Rightarrow> jsnum" where
  "num_times fl k (Finite x) = Finite (fl (k * x))"
| "num_times fl k NaN = NaN"
| "num_times fl k PosInfinity = PosInfinity"

fun math_floor :: "jsnum \<Rightarrow> jsnum" where
  "math_floor (Finite x) = Finite (of_int \<lfloor>x\<rfloor>)"
| "math_floor v = v"

fun math_round :: "jsnum \<Rightarrow> jsnum" where
  "math_round (Finite x) = Finite (of_int \<lfloor>x + 1 / 2\<rfloor>)"
| "math_round v = v"

text \<open>
  \<^verbatim>\<open>new Array(len)\<close>: the length, or a RangeError when \<open>len\<close> is not an integer
  from 0 to \<open>2^32 - 1\<close>.
\<close>

fun new_Array :: "jsnum \<Rightarrow> js_error + nat" where
  "new_Array (Finite x) =
     (if x = of_int \<lfloor>x\<rfloor> \<and> 0 \<le> x \<and> x < 2 ^ 32 then Inr (nat \<lfloor>x\<rfloor>) else Inl RangeError)"
| "new_Array v = Inl RangeError"

text \<open>
  \<^verbatim>\<open>formatSize\<close>. Its branch for a size other than zero works on logarithms and
  \<^verbatim>\<open>toFixed\<close>; it is the parameter \<open>scaled\<close>.
\<close>

definition formatSize :: "(nat \<Rightarrow> string) \<Rightarrow> nat \<Rightarrow> string" where
  "formatSize scaled bytes = (if bytes = 0 then ''0 B'' else scaled bytes)"

record progress =
  name :: string
  transferred :: nat
  total :: nat

datatype cell = Block | Dot

record progress_line =
  shown_name :: string
  bar :: "cell list"
  percentage :: jsnum
  sizes :: string

text \<open>
  \<^verbatim>\<open>onProgress\<close>: the parts of the line it prints, or the error it throws.
  \<^verbatim>\<open>new Array(n).join(c)\<close> has \<open>n - 1\<close> copies of \<open>c\<close>; the loop then fills the bar
  with dots up to 49 cells.
\<close>

definition onProgress ::
  "(rat \<Rightarrow> rat) \<Rightarrow> (nat \<Rightarrow> string) \<Rightarrow> progress \<Rightarrow> js_error + progress_line" where
  "onProgress fl scaled p =
     (let v = num_div fl (transferred p) (total p);
          pct = math_round (num_times fl 100 v)
      in case new_Array (math_floor (num_times fl 50 v)) of
           Inl e \<Rightarrow> Inl e
         | Inr n \<Rightarrow>
             Inr \<lparr>shown_name = name p,
                  bar = replicate (n - 1) Block @ replicate (49 - (n - 1)) Dot,
                  percentage = pct,
                  sizes = formatSize scaled (transferred p) @ '' / ''
                           @ formatSize scaled (total p)\<rparr>)"

section \<open>Normalizing and validating builds\<close>

text \<open>\<^verbatim>\<open>s.split(sep)\<close> for a one-character separator, and array destructuring.\<close>

fun split_on :: "char \<Rightarrow> string \<Rightarrow> string list" where
  "split_on sep [] = [[]]"
| "split_on sep (c # cs) =
     (if c = sep then [] # split_on sep cs
      else (case split_on sep cs of
              p # ps \<Rightarrow> (c # p) # ps
            | [] \<Rightarrow> [[c]]))"

definition nth_opt :: "'a list \<Rightarrow> nat \<Rightarrow> 'a option" where
  "nth_opt xs i = (if i < length xs then Some (xs ! i) else None)"

text \<open>A build is given as a build id string or as an object.\<close>

datatype build_arg = BuildId string | BuildObject build

definition parse_build :: "build_arg \<Rightarrow> build" where
  "parse_build arg =
     (case arg of
        BuildId s \<Rightarrow>
          (let parts = split_on CHR ''-'' s
           in \<lparr>platform = nth_opt parts 0, arch = nth_opt parts 1,
               channel = nth_opt parts 2, version = nth_opt parts 3\<rparr>)
      | BuildObject b \<Rightarrow> b)"

text \<open>\<^verbatim>\<open>if (!build[field] && options[field]) build[field] = options[field]\<close>.\<close>

definition or_default :: "string option \<Rightarrow> string option \<Rightarrow> string option" where
  "or_default own dflt = (if \<not> given own \<and> given dflt then dflt else own)"

definition apply_defaults :: "build \<Rightarrow> 'a options_scheme \<Rightarrow> build" where
  "apply_defaults b opts =
     \<lparr>platform = or_default (platform b) (platform opts),
      arch = or_default (arch b) (arch opts),
      channel = or_default (channel b) (channel opts),
      version = or_default (version b) (version opts)\<rparr>"

text \<open>
  \<^verbatim>\<open>if (build.version && build.version.indexOf('v') === 0)
     build.version = build.version.substring(1)\<close>.
\<close>

fun strip_v :: "string option \<Rightarrow> string option" where
  "strip_v (Some (c # cs)) = (if c = CHR ''v'' then Some cs else Some (c # cs))"
| "strip_v ver = ver"

definition normalizeBuild :: "build_arg \<Rightarrow> 'a options_scheme \<Rightarrow> js_error + build" where
  "normalizeBuild arg opts =
     (let b = parse_build arg;
          b = (if command opts \<noteq> Some ''remove'' then apply_defaults b opts else b);
          b = b\<lparr>version := strip_v (version b)\<rparr>
      in if \<not> given (version b) \<and> command opts \<noteq> Some ''remove'' then
           Inl (Error (''Could not determine a version for build. It seems that you've not ''
                        @ ''set a version in your package.json''))
         else Inr b)"

text \<open>
  \<^verbatim>\<open>options.builds.map(b => normalizeBuild(b, options))\<close>: the first build that makes
  \<^verbatim>\<open>normalizeBuild\<close> throw ends the mapping.
\<close>

fun normalize_all :: "build_arg list \<Rightarrow> 'a options_scheme \<Rightarrow> js_error + build list" where
  "normalize_all [] opts = Inr []"
| "normalize_all (arg # args) opts =
     (case normalizeBuild arg opts of
        Inl e \<Rightarrow> Inl e
      | Inr b \<Rightarrow>
          (case normalize_all args opts of
             Inl e \<Rightarrow> Inl e
           | Inr bs \<Rightarrow> Inr (b # bs)))"

text \<open>
  \<^verbatim>\<open>transformBuilds\<close>: the builds it leaves in \<^verbatim>\<open>options.builds\<close>. The builds
  given on the command line or in the configuration, strings or objects, are its second
  argument (none for \<^verbatim>\<open>undefined\<close>); what \<^verbatim>\<open>getAvailableBuilds\<close> of another
  module finds for the build \<^verbatim>\<open>all\<close> is its first. When no build is given and the
  command is not \<^verbatim>\<open>remove\<close>, the one build is made from the fields of the options
  themselves, without a call of \<^verbatim>\<open>normalizeBuild\<close>.
\<close>

definition transformBuilds ::
  "build_arg list \<Rightarrow> build_arg list \<Rightarrow> 'a options_scheme \<Rightarrow> js_error + build list" where
  "transformBuilds available given_builds opts =
     (let args = (case given_builds of
                    [] \<Rightarrow> given_builds
                  | first # others \<Rightarrow>
                      if first = BuildId ''all'' then available else given_builds)
      in case normalize_all args opts of
           Inl e \<Rightarrow> Inl e
         | Inr bs \<Rightarrow>
             if command opts = Some ''remove'' then Inr bs
             else if bs = [] then
               (if \<not> given (version opts) then
                  Inl (Error (''Could not determine a version for build. It seems that you've not ''
                               @ ''set a version in your package.json''))
                else Inr [\<lparr>platform = platform opts, arch = arch opts,
                           channel = channel opts, version = version opts\<rparr>])
             else Inr bs)"

text \<open>
  The regular expressions of \<^verbatim>\<open>validateIfRemoveCommand\<close>. None is anchored, so
  \<^verbatim>\<open>match\<close> looks for a match starting anywhere. \<^verbatim>\<open>/\w+/\<close> finds one exactly when
  some character is a word character. For \<^verbatim>\<open>/\d+\.\d+\.\d+/\<close>, a match at a given
  place takes all the digits there, a dot, all the digits there, a dot and a digit:
  a dot is no digit, so taking fewer digits never helps.
\<close>

definition is_digit :: "char \<Rightarrow> bool" where
  "is_digit c \<longleftrightarrow> c \<in> set ''0123456789''"

definition is_word :: "char \<Rightarrow> bool" where
  "is_word c \<longleftrightarrow>
     c \<in> set ''abcdefghijklmnopqrstuvwxyzABCDEFGHIJKLMNOPQRSTUVWXYZ0123456789_''"

definition match_word :: "string \<Rightarrow> bool" where
  "match_word s = list_ex is_word s"

definition semver_here :: "string \<Rightarrow> bool" where
  "semver_here s =
     (takeWhile is_digit s \<noteq> [] \<and>
      (case dropWhile is_digit s of
         [] \<Rightarrow> False
       | c1 # t1 \<Rightarrow>
           c1 = CHR ''.'' \<and> takeWhile is_digit t1 \<noteq> [] \<and>
           (case dropWhile is_digit t1 of
              [] \<Rightarrow> False
            | c2 # t2 \<Rightarrow>
                c2 = CHR ''.'' \<and> (case t2 of [] \<Rightarrow> False | c3 # t3 \<Rightarrow> is_digit c3))))"

fun match_semver :: "string \<Rightarrow> bool" where
  "match_semver [] = False"
| "match_semver (c # cs) = (semver_here (c # cs) \<or> match_semver cs)"

text \<open>The filter of \<^verbatim>\<open>validateIfRemoveCommand\<close>: is this build invalid?\<close>

definition invalid_build :: "build \<Rightarrow> bool" where
  "invalid_build b =
     (if \<not> given (platform b) \<or> \<not> given (arch b) \<or> \<not> given (channel b) \<or> \<not> given (version b)
      then True
      else \<not> (match_word (to_string (platform b)) \<and> match_word (to_string (arch b)) \<and>
              match_word (to_string (channel b)) \<and> match_semver (to_string (version b))))"

definition validateIfRemoveCommand :: "'a options_scheme \<Rightarrow> js_error + unit" where
  "validateIfRemoveCommand opts =
     (if command opts \<noteq> Some ''remove'' then Inr ()
      else
        (let invalidBuilds = filter invalid_build (builds opts)
         in if builds opts = [] then
              Inl (Error ''You should specify one or more builds to remove.'')
            else if invalidBuilds \<noteq> [] then
              Inl (Error ''For the remove command you need to specify a full buildId.'')
            else Inr ()))"

section \<open>Lookups in updated objects\<close>

lemma map_of_update_other: "k' \<noteq> k \<Longrightarrow> map_of (AList.update k v ps) k' = map_of ps k'"
  by (simp add: update_conv')

lemma map_of_delete_other: "k' \<noteq> k \<Longrightarrow> map_of (AList.delete k ps) k' = map_of ps k'"
  by (simp add: delete_conv')

lemma map_of_delete_same: "map_of (AList.delete k ps) k = None"
  by (simp add: delete_conv')

lemma map_of_update_same: "map_of (AList.update k v ps) k = Some v"
  by (simp add: update_conv')

section \<open>The manifest update\<close>

text \<open>
  C3. For every manifest \<open>M\<close>, build \<open>b\<close> and structured record, \<^verbatim>\<open>updateUpdatesJson\<close>
  called with that record pushes a manifest that holds exactly that record under the key
  \<^verbatim>\<open>getBuildId(build, false)\<close> (the whole record is overwritten, nothing is merged)
  and in which every other key is as it was in \<open>M\<close>.
\<close>

theorem updateUpdatesJson_overwrites_section:
  "\<exists>M'. updateUpdatesJson (Inr (JObj M)) push b (JObj r) = push (JObj M')
     \<and> map_of M' (getBuildId b False) = Some (JObj r)
     \<and> (\<forall>k. k \<noteq> getBuildId b False \<longrightarrow> map_of M' k = map_of M k)"
  by (rule exI [of _ "AList.update (getBuildId b False) (JObj r) M"])
     (simp add: updateUpdatesJson_def update_section_def map_of_update_same map_of_update_other)

theorem updateUpdatesJson_overwrites_section_witness:
  "\<exists>M'. updateUpdatesJson
          (Inr (JObj [(''darwin-x64-prod'', JObj [(''version'', JStr ''0.9.0'')]),
                      (''win32-x64-prod'',
                         JObj [(''version'', JStr ''1.0.0''), (''notes'', JStr ''old'')])]))
          Inr
          \<lparr>platform = Some ''win32'', arch = Some ''x64'', channel = Some ''prod'',
           version = Some ''1.2.3''\<rparr>
          (JObj [(''version'', JStr ''1.2.3'')]) = Inr (JObj M')
     \<and> map_of M' ''win32-x64-prod'' = Some (JObj [(''version'', JStr ''1.2.3'')])
     \<and> map_of M' ''darwin-x64-prod'' = Some (JObj [(''version'', JStr ''0.9.0'')])"
proof -
  let ?b = "\<lparr>platform = Some ''win32'', arch = Some ''x64'', channel = Some ''prod'',
             version = Some ''1.2.3''\<rparr>"
  have k: "getBuildId ?b False = ''win32-x64-prod''"
    by (simp add: getBuildId_def)
  have other: "''darwin-x64-prod'' \<noteq> getBuildId ?b False"
    by (simp add: k)
  from updateUpdatesJson_overwrites_section
    [of "[(''darwin-x64-prod'', JObj [(''version'', JStr ''0.9.0'')]),
          (''win32-x64-prod'',
             JObj [(''version'', JStr ''1.0.0''), (''notes'', JStr ''old'')])]"
        Inr ?b "[(''version'', JStr ''1.2.3'')]"]
  show ?thesis
    using other unfolding k by auto
qed

text \<open>
  C1, as the code has it. For every build \<open>b\<close> and manifest \<open>M\<close>, \<^verbatim>\<open>updateUpdatesJson\<close>
  called with falsy data other than \<^verbatim>\<open>null\<close> (\<^verbatim>\<open>undefined\<close>, \<^verbatim>\<open>false\<close>, \<open>0\<close>, the
  empty string) removes the key \<^verbatim>\<open>getBuildId(build, false)\<close> if and only if \<open>M\<close> has a
  truthy entry there (every record object is truthy) whose \<^verbatim>\<open>version\<close> equals the
  build's version; otherwise the manifest pushed is \<open>M\<close> itself. No other key is changed.
\<close>

theorem updateUpdatesJson_removes_matching_version:
  assumes "\<not> truthy data" and "data \<noteq> JNull"
  shows "\<exists>M'. updateUpdatesJson (Inr (JObj M)) push b data = push (JObj M')
     \<and> (\<forall>k. k \<noteq> getBuildId b False \<longrightarrow> map_of M' k = map_of M k)
     \<and> ((\<exists>entry v. map_of M (getBuildId b False) = Some entry \<and> truthy entry
            \<and> get_prop entry ''version'' = Inr v \<and> strict_eq (to_jsval (version b)) v)
          \<longrightarrow> M' = AList.delete (getBuildId b False) M \<and> map_of M' (getBuildId b False) = None)
     \<and> (\<not> (\<exists>entry v. map_of M (getBuildId b False) = Some entry \<and> truthy entry
            \<and> get_prop entry ''version'' = Inr v \<and> strict_eq (to_jsval (version b)) v)
          \<longrightarrow> M' = M)"
proof -
  let ?k = "getBuildId b False"
  have ty: "typeof data \<noteq> ''object''"
    using assms by (cases data) auto
  show ?thesis
  proof (cases "map_of M ?k")
    case None
    then show ?thesis using ty
      by (intro exI [of _ M]) (simp add: updateUpdatesJson_def update_section_def)
  next
    case (Some entry)
    show ?thesis
    proof (cases "truthy entry")
      case False
      then show ?thesis using ty Some
        by (intro exI [of _ M]) (simp add: updateUpdatesJson_def update_section_def)
    next
      case True
      then obtain v where v: "get_prop entry ''version'' = Inr v"
        by (cases entry) auto
      show ?thesis
      proof (cases "strict_eq (to_jsval (version b)) v")
        case True
        then show ?thesis using ty Some \<open>truthy entry\<close> v
          by (intro exI [of _ "AList.delete ?k M"])
             (simp add: updateUpdatesJson_def update_section_def
                map_of_delete_same map_of_delete_other)
      next
        case False
        then show ?thesis using ty Some \<open>truthy entry\<close> v
          by (intro exI [of _ M]) (simp add: updateUpdatesJson_def update_section_def)
      qed
    qed
  qed
qed

text \<open>
  The same build id removed from a manifest that holds its version, and from one that
  holds a newer version.
\<close>

theorem updateUpdatesJson_removes_matching_version_witness:
  "\<not> truthy (JBool False) \<and> JBool False \<noteq> JNull
   \<and> updateUpdatesJson
        (Inr (JObj [(''darwin-x64-prod'', JObj [(''version'', JStr ''9.9.9'')]),
                    (''linux-x64-prod'', JObj [(''version'', JStr ''1.0.0'')])]))
        Inr
        \<lparr>platform = Some ''darwin'', arch = Some ''x64'', channel = Some ''prod'',
         version = Some ''9.9.9''\<rparr>
        (JBool False)
      = Inr (JObj [(''linux-x64-prod'', JObj [(''version'', JStr ''1.0.0'')])])
   \<and> updateUpdatesJson
        (Inr (JObj [(''darwin-x64-prod'', JObj [(''version'', JStr ''9.9.9'')])]))
        Inr
        \<lparr>platform = Some ''darwin'', arch = Some ''x64'', channel = Some ''prod'',
         version = Some ''1.0.0''\<rparr>
        (JBool False)
      = Inr (JObj [(''darwin-x64-prod'', JObj [(''version'', JStr ''9.9.9'')])])"
proof -
  let ?b = "\<lparr>platform = Some ''darwin'', arch = Some ''x64'', channel = Some ''prod'',
             version = Some ''9.9.9''\<rparr>"
  let ?c = "\<lparr>platform = Some ''darwin'', arch = Some ''x64'', channel = Some ''prod'',
             version = Some ''1.0.0''\<rparr>"
  have kb: "getBuildId ?b False = ''darwin-x64-prod''"
    by (simp add: getBuildId_def)
  have kc: "getBuildId ?c False = ''darwin-x64-prod''"
    by (simp add: getBuildId_def)
  have h1: "\<not> truthy (JBool False)" and h2: "JBool False \<noteq> JNull"
    by simp_all
  from updateUpdatesJson_removes_matching_version [OF h1 h2,
      of "[(''darwin-x64-prod'', JObj [(''version'', JStr ''9.9.9'')]),
           (''linux-x64-prod'', JObj [(''version'', JStr ''1.0.0'')])]" Inr ?b]
  have first: "updateUpdatesJson
        (Inr (JObj [(''darwin-x64-prod'', JObj [(''version'', JStr ''9.9.9'')]),
                    (''linux-x64-prod'', JObj [(''version'', JStr ''1.0.0'')])]))
        Inr ?b (JBool False)
      = Inr (JObj [(''linux-x64-prod'', JObj [(''version'', JStr ''1.0.0'')])])"
    unfolding kb by (auto simp: AList.delete_eq)
  from updateUpdatesJson_removes_matching_version [OF h1 h2,
      of "[(''darwin-x64-prod'', JObj [(''version'', JStr ''9.9.9'')])]" Inr ?c]
  have second: "updateUpdatesJson
        (Inr (JObj [(''darwin-x64-prod'', JObj [(''version'', JStr ''9.9.9'')])]))
        Inr ?c (JBool False)
      = Inr (JObj [(''darwin-x64-prod'', JObj [(''version'', JStr ''9.9.9'')])])"
    unfolding kc by auto
  show ?thesis using h1 h2 first second by blast
qed

text \<open>
  Where C1 as stated fails: \<^verbatim>\<open>null\<close> is falsy, but \<^verbatim>\<open>typeof null\<close> is
  \<^verbatim>\<open>'object'\<close>, so the key is written rather than removed. Here the manifest holds
  the build's own version, and the key stays, bound to \<^verbatim>\<open>null\<close>.
\<close>

theorem updateUpdatesJson_null_is_written:
  "updateUpdatesJson
     (Inr (JObj [(''darwin-x64-prod'', JObj [(''version'', JStr ''9.9.9'')])]))
     Inr
     \<lparr>platform = Some ''darwin'', arch = Some ''x64'', channel = Some ''prod'',
      version = Some ''9.9.9''\<rparr>
     JNull
   = Inr (JObj [(''darwin-x64-prod'', JNull)])"
  by (simp add: updateUpdatesJson_def update_section_def getBuildId_def)

text \<open>
  C6, as the code has it. \<^verbatim>\<open>fetchUpdatesJson\<close> resolves whenever the request yields a
  response, and with the empty record when the status is not 200 or the body does not
  parse; it is rejected exactly when the request itself reports an error.
\<close>

theorem fetchUpdatesJson_fallback:
  "(statusCode res \<noteq> 200 \<or> json_parse (body res) = None
      \<longrightarrow> fetchUpdatesJson json_parse (Inr res) = Inr (JObj []))
   \<and> (\<exists>v. fetchUpdatesJson json_parse (Inr res) = Inr v)
   \<and> fetchUpdatesJson json_parse (Inl err) = Inl err"
  by (auto simp: fetchUpdatesJson_def split: option.splits)

theorem fetchUpdatesJson_fallback_witness:
  "statusCode \<lparr>statusCode = 404, body = ''Not Found''\<rparr> \<noteq> 200
   \<and> fetchUpdatesJson Map.empty (Inr \<lparr>statusCode = 404, body = ''Not Found''\<rparr>) = Inr (JObj [])
   \<and> Map.empty (body \<lparr>statusCode = 200, body = ''{version:''\<rparr>) = (None :: jsval option)
   \<and> fetchUpdatesJson Map.empty (Inr \<lparr>statusCode = 200, body = ''{version:''\<rparr>) = Inr (JObj [])"
  using fetchUpdatesJson_fallback [of "\<lparr>statusCode = 404, body = ''Not Found''\<rparr>" Map.empty]
    fetchUpdatesJson_fallback [of "\<lparr>statusCode = 200, body = ''{version:''\<rparr>" Map.empty]
  by simp

text \<open>
  Where C6 as stated fails: an error of the request itself (no connection, say) rejects
  the fetch, and with it the update of the manifest.
\<close>

theorem fetchUpdatesJson_request_error_rejects:
  "fetchUpdatesJson Map.empty (Inl (Rejected ''ECONNREFUSED'')) = Inl (Rejected ''ECONNREFUSED'')
   \<and> updateUpdatesJson (fetchUpdatesJson Map.empty (Inl (Rejected ''ECONNREFUSED''))) Inr
       \<lparr>platform = Some ''darwin'', arch = Some ''x64'', channel = Some ''prod'',
        version = Some ''9.9.9''\<rparr>
       (JObj [(''version'', JStr ''9.9.9'')])
     = Inl (Rejected ''ECONNREFUSED'')"
  by (simp add: fetchUpdatesJson_def updateUpdatesJson_def)

section \<open>File name normalization\<close>

lemma basename_strips_directory:
  assumes "base \<noteq> []" and "CHR ''/'' \<notin> set base"
  shows "basename (dir @ ''/'' @ base) = base"
proof -
  have "last base \<noteq> CHR ''/''"
    using assms by (metis last_in_set)
  then have "hd (rev base) \<noteq> CHR ''/''"
    using assms(1) by (simp add: hd_rev)
  then have d: "dropWhile (\<lambda>c. c = CHR ''/'') (rev base @ CHR ''/'' # rev dir)
                  = rev base @ CHR ''/'' # rev dir"
    using assms(1) by (cases "rev base") auto
  have t: "takeWhile (\<lambda>c. c \<noteq> CHR ''/'') (rev base @ CHR ''/'' # rev dir) = rev base"
    using assms(2) by (auto simp: takeWhile_tail)
  show ?thesis
    by (simp add: basename_def d t)
qed

lemma basename_no_slash: "CHR ''/'' \<notin> set (basename p)"
  by (auto simp: basename_def dest: set_takeWhileD)

lemma not_space_hyphen: "\<not> is_space CHR ''-''"
  by (simp add: is_space_def)

text \<open>
  C5, as the code has it. For every file name, \<^verbatim>\<open>normalizeFileName\<close> strips all
  directory components (the result is the base name, and holds no slash) and puts a
  hyphen in place of every single whitespace character, so that the result has the base
  name's length and no whitespace: a run of \<open>n\<close> whitespace characters becomes \<open>n\<close>
  hyphens. In particular \<^verbatim>\<open>My Installer  v1.dmg\<close>, with two spaces before
  \<^verbatim>\<open>v1\<close>, becomes \<^verbatim>\<open>My-Installer--v1.dmg\<close>.
\<close>

theorem normalizeFileName_hyphen_per_space:
  "CHR ''/'' \<notin> set (normalizeFileName f)
   \<and> (\<forall>c \<in> set (normalizeFileName f). \<not> is_space c)
   \<and> length (normalizeFileName f) = length (basename f)
   \<and> (\<forall>i < length (basename f).
         normalizeFileName f ! i
           = (if is_space (basename f ! i) then CHR ''-'' else basename f ! i))
   \<and> (base \<noteq> [] \<and> CHR ''/'' \<notin> set base \<longrightarrow> basename (dir @ ''/'' @ base) = base)
   \<and> normalizeFileName ''My Installer  v1.dmg'' = ''My-Installer--v1.dmg''"
proof -
  have a: "CHR ''/'' \<notin> set (normalizeFileName f)"
    using basename_no_slash [of f] by (auto simp: normalizeFileName_def)
  have b: "\<forall>c \<in> set (normalizeFileName f). \<not> is_space c"
    by (auto simp: normalizeFileName_def not_space_hyphen)
  have c: "length (normalizeFileName f) = length (basename f)"
    by (simp add: normalizeFileName_def)
  have d: "\<forall>i < length (basename f).
         normalizeFileName f ! i
           = (if is_space (basename f ! i) then CHR ''-'' else basename f ! i)"
    by (simp add: normalizeFileName_def)
  have e: "base \<noteq> [] \<and> CHR ''/'' \<notin> set base \<longrightarrow> basename (dir @ ''/'' @ base) = base"
    using basename_strips_directory by blast
  have g: "normalizeFileName ''My Installer  v1.dmg'' = ''My-Installer--v1.dmg''"
    by (simp add: normalizeFileName_def basename_def is_space_def)
  show ?thesis using a b c d e g by blast
qed

theorem normalizeFileName_hyphen_per_space_witness:
  "''c d.exe'' \<noteq> [] \<and> CHR ''/'' \<notin> set ''c d.exe''
   \<and> basename (''/a/b'' @ ''/'' @ ''c d.exe'') = ''c d.exe''
   \<and> normalizeFileName ''/a/b/c d.exe'' ! 1 = CHR ''-''
   \<and> normalizeFileName ''/a/b/c d.exe'' ! 0 = CHR ''c''"
proof -
  have h: "''c d.exe'' \<noteq> [] \<and> CHR ''/'' \<notin> set ''c d.exe''" by simp
  have bn: "basename ''/a/b/c d.exe'' = ''c d.exe''"
    by (simp add: basename_def)
  from normalizeFileName_hyphen_per_space [of "''/a/b/c d.exe''" "''c d.exe''" "''/a/b''"] h bn
  show ?thesis
    by (simp add: is_space_def)
qed

text \<open>
  Where C5 as stated fails: the two spaces of its own example give two hyphens, not one.
\<close>

theorem normalizeFileName_run_not_collapsed:
  "normalizeFileName ''My Installer  v1.dmg'' \<noteq> ''My-Installer-v1.dmg''"
  by (simp add: normalizeFileName_def basename_def is_space_def)

section \<open>Publishing assets: a build without assets\<close>

text \<open>
  C4. For every build whose asset mapping is empty, \<^verbatim>\<open>publishAssets\<close> fails with the
  error that there are no assets for the build; the transport is not called (no upload,
  no mirror copy), the backend is left as it was, and there is no result.
\<close>

theorem publishAssets_no_assets:
  "assets b = [] \<Longrightarrow>
     publishAssets b t s =
       (Inl (Error (''There are no assets for build '' @ getBuildId b True
                     @ ''. Check the dist folder.'')), s, [])"
  by (simp add: publishAssets_def)

theorem publishAssets_no_assets_witness:
  "assets \<lparr>platform = Some ''win32'', arch = Some ''x64'', channel = Some ''prod'',
           version = Some ''1.2.3'', assets = []\<rparr> = []
   \<and> publishAssets
        \<lparr>platform = Some ''win32'', arch = Some ''x64'', channel = Some ''prod'',
         version = Some ''1.2.3'', assets = []\<rparr>
        \<lparr>uploadFile = (\<lambda>p b n. (Inr (JStr p), Suc n)),
         duplicateMetaFiles = (\<lambda>p b n. (Inr (), Suc n))\<rparr>
        (0::nat)
      = (Inl (Error ''There are no assets for build win32-x64-prod-v1.2.3. Check the dist folder.''),
         0, [])"
  using publishAssets_no_assets
    [of "\<lparr>platform = Some ''win32'', arch = Some ''x64'', channel = Some ''prod'',
           version = Some ''1.2.3'', assets = []\<rparr>"
        "\<lparr>uploadFile = (\<lambda>p b n. (Inr (JStr p), Suc n)),
          duplicateMetaFiles = (\<lambda>p b n. (Inr (), Suc n))\<rparr>" "0::nat"]
  by (simp add: getBuildId_def)

section \<open>Progress display at a total of zero\<close>

text \<open>
  C9, on the code. A progress event whose \<^verbatim>\<open>total\<close> is zero makes \<^verbatim>\<open>onProgress\<close>
  divide by zero: the quotient is \<^verbatim>\<open>NaN\<close> or \<^verbatim>\<open>Infinity\<close>, neither is a valid
  array length, and \<^verbatim>\<open>new Array\<close> throws a RangeError before anything is printed,
  whatever the number of bytes transferred. \<^verbatim>\<open>formatSize(0)\<close> alone does return
  \<^verbatim>\<open>0 B\<close>.
\<close>

theorem onProgress_zero_total_throws:
  "onProgress fl scaled \<lparr>name = n, transferred = t, total = 0\<rparr> = Inl RangeError
   \<and> formatSize scaled 0 = ''0 B''"
  by (simp add: onProgress_def num_div_def formatSize_def)

section \<open>Build normalization and the validation of a removal\<close>

lemma dot_no_digit: "\<not> is_digit CHR ''.''"
  by (simp add: is_digit_def)

lemma semver_here_shape:
  "semver_here s \<longleftrightarrow>
     (\<exists>d1 d2 d3 post. s = d1 @ ''.'' @ d2 @ ''.'' @ d3 @ post
        \<and> d1 \<noteq> [] \<and> d2 \<noteq> [] \<and> d3 \<noteq> []
        \<and> list_all is_digit d1 \<and> list_all is_digit d2 \<and> list_all is_digit d3)"
proof
  assume m: "semver_here s"
  let ?d1 = "takeWhile is_digit s"
  from m obtain t1 where r1: "dropWhile is_digit s = CHR ''.'' # t1" and n1: "?d1 \<noteq> []"
    and rest1: "takeWhile is_digit t1 \<noteq> [] \<and>
           (case dropWhile is_digit t1 of
              [] \<Rightarrow> False
            | c2 # t2 \<Rightarrow>
                c2 = CHR ''.'' \<and> (case t2 of [] \<Rightarrow> False | c3 # t3 \<Rightarrow> is_digit c3))"
    by (auto simp: semver_here_def split: list.splits)
  let ?d2 = "takeWhile is_digit t1"
  from rest1 obtain c3 t3 where r2: "dropWhile is_digit t1 = CHR ''.'' # c3 # t3" and d3: "is_digit c3"
    by (auto split: list.splits)
  have s1: "s = ?d1 @ CHR ''.'' # t1"
    using r1 takeWhile_dropWhile_id [of is_digit s] by simp
  have s2: "t1 = ?d2 @ CHR ''.'' # c3 # t3"
    using r2 takeWhile_dropWhile_id [of is_digit t1] by simp
  have "s = ?d1 @ ''.'' @ ?d2 @ ''.'' @ [c3] @ t3"
    using s1 s2 by simp
  moreover have "list_all is_digit ?d1" "list_all is_digit ?d2"
    by (auto simp: list_all_iff dest: set_takeWhileD)
  ultimately show "\<exists>d1 d2 d3 post. s = d1 @ ''.'' @ d2 @ ''.'' @ d3 @ post
        \<and> d1 \<noteq> [] \<and> d2 \<noteq> [] \<and> d3 \<noteq> []
        \<and> list_all is_digit d1 \<and> list_all is_digit d2 \<and> list_all is_digit d3"
    using n1 rest1 d3 by (intro exI [of _ ?d1] exI [of _ ?d2] exI [of _ "[c3]"] exI [of _ t3]) simp
next
  assume "\<exists>d1 d2 d3 post. s = d1 @ ''.'' @ d2 @ ''.'' @ d3 @ post
        \<and> d1 \<noteq> [] \<and> d2 \<noteq> [] \<and> d3 \<noteq> []
        \<and> list_all is_digit d1 \<and> list_all is_digit d2 \<and> list_all is_digit d3"
  then obtain d1 d2 d3 post where s: "s = d1 @ CHR ''.'' # d2 @ CHR ''.'' # d3 @ post"
    and ne: "d1 \<noteq> []" "d2 \<noteq> []" "d3 \<noteq> []"
    and dg: "\<forall>c\<in>set d1. is_digit c" "\<forall>c\<in>set d2. is_digit c" "\<forall>c\<in>set d3. is_digit c"
    by (auto simp: list_all_iff)
  obtain c3 d3' where d3: "d3 = c3 # d3'" using ne(3) by (cases d3) auto
  have t1: "takeWhile is_digit (d1 @ CHR ''.'' # r) = d1" for r
    using dg(1) by (simp add: takeWhile_tail dot_no_digit)
  have r1: "dropWhile is_digit (d1 @ CHR ''.'' # r) = CHR ''.'' # r" for r
    using dg(1) by (simp add: dropWhile_append3 dot_no_digit)
  have t2: "takeWhile is_digit (d2 @ CHR ''.'' # r) = d2" for r
    using dg(2) by (simp add: takeWhile_tail dot_no_digit)
  have r2: "dropWhile is_digit (d2 @ CHR ''.'' # r) = CHR ''.'' # r" for r
    using dg(2) by (simp add: dropWhile_append3 dot_no_digit)
  show "semver_here s"
    using ne dg(3) unfolding s d3 semver_here_def t1 r1 by (simp add: t2 r2)
qed

lemma match_semver_shape:
  "match_semver s \<longleftrightarrow>
     (\<exists>pre d1 d2 d3 post. s = pre @ d1 @ ''.'' @ d2 @ ''.'' @ d3 @ post
        \<and> d1 \<noteq> [] \<and> d2 \<noteq> [] \<and> d3 \<noteq> []
        \<and> list_all is_digit d1 \<and> list_all is_digit d2 \<and> list_all is_digit d3)"
proof (induction s)
  case Nil
  then show ?case by simp
next
  case (Cons c cs)
  show ?case
  proof
    assume "match_semver (c # cs)"
    then consider "semver_here (c # cs)" | "match_semver cs" by auto
    then show "\<exists>pre d1 d2 d3 post. c # cs = pre @ d1 @ ''.'' @ d2 @ ''.'' @ d3 @ post
        \<and> d1 \<noteq> [] \<and> d2 \<noteq> [] \<and> d3 \<noteq> []
        \<and> list_all is_digit d1 \<and> list_all is_digit d2 \<and> list_all is_digit d3"
    proof cases
      case 1
      then obtain d1 d2 d3 post where "c # cs = [] @ d1 @ ''.'' @ d2 @ ''.'' @ d3 @ post
        \<and> d1 \<noteq> [] \<and> d2 \<noteq> [] \<and> d3 \<noteq> []
        \<and> list_all is_digit d1 \<and> list_all is_digit d2 \<and> list_all is_digit d3"
        unfolding semver_here_shape by auto
      then show ?thesis by blast
    next
      case 2
      then obtain pre d1 d2 d3 post where "cs = pre @ d1 @ ''.'' @ d2 @ ''.'' @ d3 @ post
        \<and> d1 \<noteq> [] \<and> d2 \<noteq> [] \<and> d3 \<noteq> []
        \<and> list_all is_digit d1 \<and> list_all is_digit d2 \<and> list_all is_digit d3"
        unfolding Cons.IH by auto
      then have "c # cs = (c # pre) @ d1 @ ''.'' @ d2 @ ''.'' @ d3 @ post
        \<and> d1 \<noteq> [] \<and> d2 \<noteq> [] \<and> d3 \<noteq> []
        \<and> list_all is_digit d1 \<and> list_all is_digit d2 \<and> list_all is_digit d3"
        by simp
      then show ?thesis by blast
    qed
  next
    assume "\<exists>pre d1 d2 d3 post. c # cs = pre @ d1 @ ''.'' @ d2 @ ''.'' @ d3 @ post
        \<and> d1 \<noteq> [] \<and> d2 \<noteq> [] \<and> d3 \<noteq> []
        \<and> list_all is_digit d1 \<and> list_all is_digit d2 \<and> list_all is_digit d3"
    then obtain pre d1 d2 d3 post where s: "c # cs = pre @ d1 @ ''.'' @ d2 @ ''.'' @ d3 @ post"
      and sh: "d1 \<noteq> [] \<and> d2 \<noteq> [] \<and> d3 \<noteq> []
        \<and> list_all is_digit d1 \<and> list_all is_digit d2 \<and> list_all is_digit d3"
      by blast
    show "match_semver (c # cs)"
    proof (cases pre)
      case Nil
      then have "semver_here (c # cs)"
        unfolding semver_here_shape using s sh by auto
      then show ?thesis by simp
    next
      case (Cons p pre')
      then have "cs = pre' @ d1 @ ''.'' @ d2 @ ''.'' @ d3 @ post"
        using s by simp
      then have "match_semver cs"
        unfolding Cons.IH using sh by blast
      then show ?thesis by simp
    qed
  qed
qed

lemma valid_build_shape:
  assumes "\<not> invalid_build rb"
  shows "\<exists>v pre d1 d2 d3 post. version rb = Some v
               \<and> v = pre @ d1 @ ''.'' @ d2 @ ''.'' @ d3 @ post
               \<and> d1 \<noteq> [] \<and> d2 \<noteq> [] \<and> d3 \<noteq> []
               \<and> list_all is_digit d1 \<and> list_all is_digit d2 \<and> list_all is_digit d3"
proof -
  from assms have g: "given (version rb)" and m: "match_semver (to_string (version rb))"
    by (auto simp: invalid_build_def split: if_splits)
  from g obtain v where v: "version rb = Some v" by (cases "version rb") auto
  with m have "match_semver v" by simp
  then obtain pre d1 d2 d3 post where "v = pre @ d1 @ ''.'' @ d2 @ ''.'' @ d3 @ post
               \<and> d1 \<noteq> [] \<and> d2 \<noteq> [] \<and> d3 \<noteq> []
               \<and> list_all is_digit d1 \<and> list_all is_digit d2 \<and> list_all is_digit d3"
    unfolding match_semver_shape by blast
  then show ?thesis
    using v by blast
qed

lemma validateIfRemoveCommand_passes:
  assumes "command ropts = Some ''remove''" and "validateIfRemoveCommand ropts = Inr ()"
    and "rb \<in> set (builds ropts)"
  shows "\<not> invalid_build rb"
proof -
  have "filter invalid_build (builds ropts) = []"
    using assms(1,2) by (simp add: validateIfRemoveCommand_def Let_def split: if_splits)
  then show ?thesis
    using assms(3) by (simp add: filter_empty_conv)
qed

lemma normalizeBuild_result:
  "normalizeBuild arg opts =
     (let resolved = (if command opts \<noteq> Some ''remove''
                         \<and> \<not> given (version (parse_build arg)) \<and> given (version opts)
                      then version opts else version (parse_build arg))
      in if \<not> given (strip_v resolved) \<and> command opts \<noteq> Some ''remove''
         then Inl (Error (''Could not determine a version for build. It seems that you've not ''
                           @ ''set a version in your package.json''))
         else Inr ((if command opts \<noteq> Some ''remove''
                    then apply_defaults (parse_build arg) opts else parse_build arg)
                   \<lparr>version := strip_v resolved\<rparr>))"
  by (simp add: normalizeBuild_def Let_def apply_defaults_def or_default_def)

lemma strip_v_cases:
  "(\<forall>w. ver = Some (CHR ''v'' # w) \<longrightarrow> strip_v ver = Some w)
   \<and> (\<forall>w. ver = Some w \<and> \<not> prefix ''v'' w \<longrightarrow> strip_v ver = Some w)
   \<and> (ver = None \<longrightarrow> strip_v ver = None)
   \<and> (\<forall>w. strip_v ver = Some w \<and> prefix ''v'' w \<longrightarrow> (\<exists>x. ver = Some (''vv'' @ x)))
   \<and> (given (strip_v ver) \<longleftrightarrow> (\<exists>w. ver = Some w \<and> w \<noteq> [] \<and> w \<noteq> ''v''))"
proof (cases ver)
  case None
  then show ?thesis by simp
next
  case (Some v)
  show ?thesis
  proof (cases v)
    case Nil
    then show ?thesis using Some by simp
  next
    case (Cons c cs)
    then show ?thesis using Some
      by (cases "c = CHR ''v''") (auto simp: prefix_def)
  qed
qed

lemma normalize_all_members:
  "normalize_all args opts = Inr bs \<Longrightarrow> tb \<in> set bs \<Longrightarrow> \<exists>a. normalizeBuild a opts = Inr tb"
proof (induction args arbitrary: bs)
  case Nil
  then show ?case by simp
next
  case (Cons arg args)
  from Cons.prems(1) obtain b bs' where b: "normalizeBuild arg opts = Inr b"
    and rest: "normalize_all args opts = Inr bs'" and bs: "bs = b # bs'"
    by (auto split: sum.splits)
  show ?case
  proof (cases "tb = b")
    case True
    then show ?thesis using b by blast
  next
    case False
    then have "tb \<in> set bs'" using Cons.prems(2) bs by simp
    then show ?thesis using Cons.IH [OF rest] by blast
  qed
qed

lemma transformBuilds_members:
  assumes "transformBuilds available given_builds opts = Inr bs" and "tb \<in> set bs"
  shows "(\<exists>a. normalizeBuild a opts = Inr tb)
       \<or> (command opts \<noteq> Some ''remove'' \<and> bs = [tb]
           \<and> tb = \<lparr>platform = platform opts, arch = arch opts,
                   channel = channel opts, version = version opts\<rparr>)"
proof -
  let ?args = "case given_builds of
                    [] \<Rightarrow> given_builds
                  | first # others \<Rightarrow>
                      if first = BuildId ''all'' then available else given_builds"
  obtain ns where ns: "normalize_all ?args opts = Inr ns"
    using assms(1) by (cases "normalize_all ?args opts") (simp_all add: transformBuilds_def)
  show ?thesis
  proof (cases "command opts \<noteq> Some ''remove'' \<and> ns = []")
    case True
    then have "bs = [\<lparr>platform = platform opts, arch = arch opts,
                   channel = channel opts, version = version opts\<rparr>]"
      using assms(1) ns by (simp add: transformBuilds_def split: if_splits)
    then show ?thesis using True assms(2) by simp
  next
    case False
    then have "bs = ns"
      using assms(1) ns by (auto simp: transformBuilds_def split: if_splits)
    then show ?thesis
      using normalize_all_members [OF ns] assms(2) by blast
  qed
qed

lemma transformBuilds_fallback:
  assumes "command opts \<noteq> Some ''remove''" and "given (version opts)"
  shows "transformBuilds available [] opts
           = Inr [\<lparr>platform = platform opts, arch = arch opts,
                   channel = channel opts, version = version opts\<rparr>]"
  using assms by (simp add: transformBuilds_def)

text \<open>
  C10, as the code has it. \<^verbatim>\<open>normalizeBuild\<close> resolves a version (the build's
  own, or, for a command other than \<^verbatim>\<open>remove\<close>, the default of the options when the
  build has none) and removes exactly one leading \<^verbatim>\<open>v\<close> from it. It returns a build
  exactly when the command is \<^verbatim>\<open>remove\<close> or a version is left after that. So the
  version of the build it returns begins with \<^verbatim>\<open>v\<close> only when the resolved version
  began with \<^verbatim>\<open>vv\<close>. Every build that \<^verbatim>\<open>transformBuilds\<close> leaves is a build
  returned by \<^verbatim>\<open>normalizeBuild\<close>, or else the one build made from the options
  when none is given: that build does not pass through \<^verbatim>\<open>normalizeBuild\<close> and
  keeps the version of the options as it is. For the remove command, every build of
  options that pass \<^verbatim>\<open>validateIfRemoveCommand\<close> has a version that contains
  digits, a dot, digits, a dot and digits; when some build has no such version,
  validation fails with an error.
\<close>

theorem normalizeBuild_strips_one_v_and_remove_needs_semver:
  assumes "resolved = (if command opts \<noteq> Some ''remove''
                          \<and> \<not> given (version (parse_build arg)) \<and> given (version opts)
                       then version opts else version (parse_build arg))"
  shows "((\<exists>nb. normalizeBuild arg opts = Inr nb)
            \<longleftrightarrow> command opts = Some ''remove''
                \<or> (\<exists>w. resolved = Some w \<and> w \<noteq> [] \<and> w \<noteq> ''v''))
       \<and> (normalizeBuild arg opts = Inr b \<longrightarrow>
             (\<forall>w. resolved = Some (CHR ''v'' # w) \<longrightarrow> version b = Some w)
           \<and> (\<forall>w. resolved = Some w \<and> \<not> prefix ''v'' w \<longrightarrow> version b = Some w)
           \<and> (resolved = None \<longrightarrow> version b = None)
           \<and> (\<forall>w. version b = Some w \<and> prefix ''v'' w \<longrightarrow> (\<exists>x. resolved = Some (''vv'' @ x))))
       \<and> (transformBuilds available given_builds opts = Inr bs \<longrightarrow>
             (\<forall>tb \<in> set bs.
                (\<exists>a. normalizeBuild a opts = Inr tb)
                \<or> (command opts \<noteq> Some ''remove'' \<and> bs = [tb]
                    \<and> tb = \<lparr>platform = platform opts, arch = arch opts,
                            channel = channel opts, version = version opts\<rparr>)))
       \<and> (command opts \<noteq> Some ''remove'' \<and> given (version opts) \<longrightarrow>
             transformBuilds available [] opts
               = Inr [\<lparr>platform = platform opts, arch = arch opts,
                       channel = channel opts, version = version opts\<rparr>])
       \<and> (command ropts = Some ''remove'' \<and> validateIfRemoveCommand ropts = Inr ()
            \<longrightarrow> (\<forall>rb \<in> set (builds ropts).
                   \<exists>v pre d1 d2 d3 post. version rb = Some v
                     \<and> v = pre @ d1 @ ''.'' @ d2 @ ''.'' @ d3 @ post
                     \<and> d1 \<noteq> [] \<and> d2 \<noteq> [] \<and> d3 \<noteq> []
                     \<and> list_all is_digit d1 \<and> list_all is_digit d2 \<and> list_all is_digit d3))
       \<and> (command ropts = Some ''remove''
            \<and> (\<exists>rb \<in> set (builds ropts).
                   \<not> (\<exists>v pre d1 d2 d3 post. version rb = Some v
                        \<and> v = pre @ d1 @ ''.'' @ d2 @ ''.'' @ d3 @ post
                        \<and> d1 \<noteq> [] \<and> d2 \<noteq> [] \<and> d3 \<noteq> []
                        \<and> list_all is_digit d1 \<and> list_all is_digit d2 \<and> list_all is_digit d3))
            \<longrightarrow> (\<exists>e. validateIfRemoveCommand ropts = Inl e))"
proof -
  note nr = normalizeBuild_result [of arg opts, folded assms, unfolded Let_def]
  note sv = strip_v_cases [of resolved]
  have returns: "(\<exists>nb. normalizeBuild arg opts = Inr nb)
            \<longleftrightarrow> command opts = Some ''remove''
                \<or> (\<exists>w. resolved = Some w \<and> w \<noteq> [] \<and> w \<noteq> ''v'')"
  proof -
    have "(\<exists>nb. normalizeBuild arg opts = Inr nb)
            \<longleftrightarrow> command opts = Some ''remove'' \<or> given (strip_v resolved)"
      unfolding nr by auto
    then show ?thesis
      using sv by simp
  qed
  have stripped: "(\<forall>w. resolved = Some (CHR ''v'' # w) \<longrightarrow> version b = Some w)
           \<and> (\<forall>w. resolved = Some w \<and> \<not> prefix ''v'' w \<longrightarrow> version b = Some w)
           \<and> (resolved = None \<longrightarrow> version b = None)
           \<and> (\<forall>w. version b = Some w \<and> prefix ''v'' w \<longrightarrow> (\<exists>x. resolved = Some (''vv'' @ x)))"
    if "normalizeBuild arg opts = Inr b"
  proof -
    have "version b = strip_v resolved"
      using that unfolding nr by (auto split: if_splits)
    then show ?thesis
      using sv by simp
  qed
  have members: "\<forall>tb \<in> set bs.
                (\<exists>a. normalizeBuild a opts = Inr tb)
                \<or> (command opts \<noteq> Some ''remove'' \<and> bs = [tb]
                    \<and> tb = \<lparr>platform = platform opts, arch = arch opts,
                            channel = channel opts, version = version opts\<rparr>)"
    if "transformBuilds available given_builds opts = Inr bs"
    using transformBuilds_members [OF that] by blast
  have fallback: "transformBuilds available [] opts
               = Inr [\<lparr>platform = platform opts, arch = arch opts,
                       channel = channel opts, version = version opts\<rparr>]"
    if "command opts \<noteq> Some ''remove'' \<and> given (version opts)"
    using that transformBuilds_fallback by blast
  have passes: "\<forall>rb \<in> set (builds ropts).
                   \<exists>v pre d1 d2 d3 post. version rb = Some v
                     \<and> v = pre @ d1 @ ''.'' @ d2 @ ''.'' @ d3 @ post
                     \<and> d1 \<noteq> [] \<and> d2 \<noteq> [] \<and> d3 \<noteq> []
                     \<and> list_all is_digit d1 \<and> list_all is_digit d2 \<and> list_all is_digit d3"
    if a: "command ropts = Some ''remove'' \<and> validateIfRemoveCommand ropts = Inr ()"
  proof
    fix rb assume "rb \<in> set (builds ropts)"
    with a have "\<not> invalid_build rb"
      using validateIfRemoveCommand_passes by blast
    then show "\<exists>v pre d1 d2 d3 post. version rb = Some v
               \<and> v = pre @ d1 @ ''.'' @ d2 @ ''.'' @ d3 @ post
               \<and> d1 \<noteq> [] \<and> d2 \<noteq> [] \<and> d3 \<noteq> []
               \<and> list_all is_digit d1 \<and> list_all is_digit d2 \<and> list_all is_digit d3"
      by (rule valid_build_shape)
  qed
  have fails: "\<exists>e. validateIfRemoveCommand ropts = Inl e"
    if a: "command ropts = Some ''remove''
            \<and> (\<exists>rb \<in> set (builds ropts).
                   \<not> (\<exists>v pre d1 d2 d3 post. version rb = Some v
                        \<and> v = pre @ d1 @ ''.'' @ d2 @ ''.'' @ d3 @ post
                        \<and> d1 \<noteq> [] \<and> d2 \<noteq> [] \<and> d3 \<noteq> []
                        \<and> list_all is_digit d1 \<and> list_all is_digit d2 \<and> list_all is_digit d3))"
  proof -
    from a obtain rb where rb: "rb \<in> set (builds ropts)"
      and bad: "\<not> (\<exists>v pre d1 d2 d3 post. version rb = Some v
                  \<and> v = pre @ d1 @ ''.'' @ d2 @ ''.'' @ d3 @ post
                  \<and> d1 \<noteq> [] \<and> d2 \<noteq> [] \<and> d3 \<noteq> []
                  \<and> list_all is_digit d1 \<and> list_all is_digit d2 \<and> list_all is_digit d3)"
      by blast
    from bad have "invalid_build rb"
      using valid_build_shape [of rb] by blast
    then have "validateIfRemoveCommand ropts \<noteq> Inr ()"
      using a rb validateIfRemoveCommand_passes [of ropts rb] by blast
    then show ?thesis
      by (cases "validateIfRemoveCommand ropts") auto
  qed
  from stripped have c2: "normalizeBuild arg opts = Inr b \<longrightarrow>
             (\<forall>w. resolved = Some (CHR ''v'' # w) \<longrightarrow> version b = Some w)
           \<and> (\<forall>w. resolved = Some w \<and> \<not> prefix ''v'' w \<longrightarrow> version b = Some w)
           \<and> (resolved = None \<longrightarrow> version b = None)
           \<and> (\<forall>w. version b = Some w \<and> prefix ''v'' w \<longrightarrow> (\<exists>x. resolved = Some (''vv'' @ x)))"
    by (rule impI)
  from members have c3: "transformBuilds available given_builds opts = Inr bs \<longrightarrow>
             (\<forall>tb \<in> set bs.
                (\<exists>a. normalizeBuild a opts = Inr tb)
                \<or> (command opts \<noteq> Some ''remove'' \<and> bs = [tb]
                    \<and> tb = \<lparr>platform = platform opts, arch = arch opts,
                            channel = channel opts, version = version opts\<rparr>))"
    by (rule impI)
  from fallback have c4: "command opts \<noteq> Some ''remove'' \<and> given (version opts) \<longrightarrow>
             transformBuilds available [] opts
               = Inr [\<lparr>platform = platform opts, arch = arch opts,
                       channel = channel opts, version = version opts\<rparr>]"
    by (rule impI)
  from passes have c5: "command ropts = Some ''remove'' \<and> validateIfRemoveCommand ropts = Inr ()
            \<longrightarrow> (\<forall>rb \<in> set (builds ropts).
                   \<exists>v pre d1 d2 d3 post. version rb = Some v
                     \<and> v = pre @ d1 @ ''.'' @ d2 @ ''.'' @ d3 @ post
                     \<and> d1 \<noteq> [] \<and> d2 \<noteq> [] \<and> d3 \<noteq> []
                     \<and> list_all is_digit d1 \<and> list_all is_digit d2 \<and> list_all is_digit d3)"
    by (rule impI)
  from fails have c6: "command ropts = Some ''remove''
            \<and> (\<exists>rb \<in> set (builds ropts).
                   \<not> (\<exists>v pre d1 d2 d3 post. version rb = Some v
                        \<and> v = pre @ d1 @ ''.'' @ d2 @ ''.'' @ d3 @ post
                        \<and> d1 \<noteq> [] \<and> d2 \<noteq> [] \<and> d3 \<noteq> []
                        \<and> list_all is_digit d1 \<and> list_all is_digit d2 \<and> list_all is_digit d3))
            \<longrightarrow> (\<exists>e. validateIfRemoveCommand ropts = Inl e)"
    by (rule impI)
  show ?thesis
    by (rule conjI [OF returns conjI [OF c2 conjI [OF c3 conjI [OF c4 conjI [OF c5 c6]]]]])
qed

theorem normalizeBuild_strips_one_v_and_remove_needs_semver_witness:
  "normalizeBuild (BuildId ''win32-x64-prod-v1.2.3'')
     \<lparr>platform = None, arch = None, channel = None, version = None,
      command = Some ''remove'',
      builds = [\<lparr>platform = Some ''win32'', arch = Some ''x64'', channel = Some ''prod'',
                 version = Some ''1.2.3''\<rparr>]\<rparr>
   = Inr \<lparr>platform = Some ''win32'', arch = Some ''x64'', channel = Some ''prod'',
          version = Some ''1.2.3''\<rparr>
   \<and> version \<lparr>platform = Some ''win32'', arch = Some ''x64'', channel = Some ''prod'',
               version = Some ''1.2.3''\<rparr> = Some ''1.2.3''
   \<and> transformBuilds [] []
       \<lparr>platform = Some ''win32'', arch = Some ''x64'', channel = Some ''prod'',
        version = Some ''v1.2.3'', command = Some ''publish'', builds = []\<rparr>
     = Inr [\<lparr>platform = Some ''win32'', arch = Some ''x64'', channel = Some ''prod'',
             version = Some ''v1.2.3''\<rparr>]
   \<and> validateIfRemoveCommand
       \<lparr>platform = None, arch = None, channel = None, version = None,
        command = Some ''remove'',
        builds = [\<lparr>platform = Some ''win32'', arch = Some ''x64'', channel = Some ''prod'',
                   version = Some ''1.2.3''\<rparr>]\<rparr>
     = Inr ()
   \<and> (\<exists>pre d1 d2 d3 post. ''1.2.3'' = pre @ d1 @ ''.'' @ d2 @ ''.'' @ d3 @ post
         \<and> d1 \<noteq> [] \<and> d2 \<noteq> [] \<and> d3 \<noteq> []
         \<and> list_all is_digit d1 \<and> list_all is_digit d2 \<and> list_all is_digit d3)
   \<and> (\<exists>e. validateIfRemoveCommand
             \<lparr>platform = None, arch = None, channel = None, version = None,
              command = Some ''remove'',
              builds = [\<lparr>platform = Some ''win32'', arch = Some ''x64'',
                         channel = Some ''prod'', version = Some ''1.2''\<rparr>]\<rparr>
           = Inl e)"
proof -
  let ?b = "\<lparr>platform = Some ''win32'', arch = Some ''x64'', channel = Some ''prod'',
             version = Some ''1.2.3''\<rparr>"
  let ?c = "\<lparr>platform = Some ''win32'', arch = Some ''x64'', channel = Some ''prod'',
             version = Some ''1.2''\<rparr>"
  let ?o = "\<lparr>platform = None, arch = None, channel = None, version = None,
             command = Some ''remove'', builds = [?b]\<rparr>"
  let ?p = "\<lparr>platform = None, arch = None, channel = None, version = None,
             command = Some ''remove'', builds = [?c]\<rparr>"
  let ?pub = "\<lparr>platform = Some ''win32'', arch = Some ''x64'', channel = Some ''prod'',
               version = Some ''v1.2.3'', command = Some ''publish'', builds = []\<rparr>"
  let ?arg = "BuildId ''win32-x64-prod-v1.2.3''"
  have own: "version (parse_build ?arg) = Some ''v1.2.3''"
    by (simp add: parse_build_def nth_opt_def)
  have r1: "Some ''v1.2.3'' = (if command ?o \<noteq> Some ''remove''
                          \<and> \<not> given (version (parse_build ?arg)) \<and> given (version ?o)
                       then version ?o else version (parse_build ?arg))"
    by (simp add: own)
  have r2: "Some ''v1.2.3'' = (if command ?pub \<noteq> Some ''remove''
                          \<and> \<not> given (version (parse_build ?arg)) \<and> given (version ?pub)
                       then version ?pub else version (parse_build ?arg))"
    by (simp add: own)
  have n: "normalizeBuild ?arg ?o = Inr ?b"
    by (simp add: normalizeBuild_def parse_build_def nth_opt_def)
  have ok: "validateIfRemoveCommand ?o = Inr ()"
    by (simp add: validateIfRemoveCommand_def invalid_build_def match_word_def is_word_def
        semver_here_def is_digit_def)
  have "\<not> match_semver ''1.2''"
    by (simp add: semver_here_def is_digit_def)
  then have bad: "\<exists>rb \<in> set (builds ?p).
             \<not> (\<exists>v pre d1 d2 d3 post. version rb = Some v
                  \<and> v = pre @ d1 @ ''.'' @ d2 @ ''.'' @ d3 @ post
                  \<and> d1 \<noteq> [] \<and> d2 \<noteq> [] \<and> d3 \<noteq> []
                  \<and> list_all is_digit d1 \<and> list_all is_digit d2 \<and> list_all is_digit d3)"
    unfolding match_semver_shape by simp
  have rm: "command ?o = Some ''remove''" "command ?p = Some ''remove''"
    by simp_all
  have pub: "command ?pub \<noteq> Some ''remove'' \<and> given (version ?pub)"
    by simp
  note t1 = normalizeBuild_strips_one_v_and_remove_needs_semver
    [OF r1, where b = ?b and ropts = ?o and available = "[]" and given_builds = "[]" and bs = "[]"]
  note t2 = normalizeBuild_strips_one_v_and_remove_needs_semver
    [OF r1, where b = ?b and ropts = ?p and available = "[]" and given_builds = "[]" and bs = "[]"]
  note t3 = normalizeBuild_strips_one_v_and_remove_needs_semver
    [OF r2, where b = ?b and ropts = ?o and available = "[]" and given_builds = "[]" and bs = "[]"]
  have a: "version ?b = Some ''1.2.3''"
    using t1 n by blast
  have f: "transformBuilds [] [] ?pub
             = Inr [\<lparr>platform = Some ''win32'', arch = Some ''x64'', channel = Some ''prod'',
                     version = Some ''v1.2.3''\<rparr>]"
    using t3 pub by simp
  have s: "\<exists>pre d1 d2 d3 post. ''1.2.3'' = pre @ d1 @ ''.'' @ d2 @ ''.'' @ d3 @ post
         \<and> d1 \<noteq> [] \<and> d2 \<noteq> [] \<and> d3 \<noteq> []
         \<and> list_all is_digit d1 \<and> list_all is_digit d2 \<and> list_all is_digit d3"
    using t1 rm(1) ok by simp
  have c: "\<exists>e. validateIfRemoveCommand ?p = Inl e"
    using t2 rm(2) bad by blast
  show ?thesis
    by (rule conjI [OF n conjI [OF a conjI [OF f conjI [OF ok conjI [OF s c]]]]])
qed

text \<open>
  Where C10 as stated fails: of two leading \<^verbatim>\<open>v\<close> one is left, and the build still
  passes the validation of the remove command.
\<close>

theorem normalizeBuild_keeps_second_v:
  "normalizeBuild (BuildId ''win32-x64-prod-vv1.0.0'')
     \<lparr>platform = None, arch = None, channel = None, version = None,
      command = Some ''remove'', builds = []\<rparr>
   = Inr \<lparr>platform = Some ''win32'', arch = Some ''x64'', channel = Some ''prod'',
          version = Some ''v1.0.0''\<rparr>
   \<and> prefix ''v'' ''v1.0.0''
   \<and> validateIfRemoveCommand
       \<lparr>platform = None, arch = None, channel = None, version = None,
        command = Some ''remove'',
        builds = [\<lparr>platform = Some ''win32'', arch = Some ''x64'', channel = Some ''prod'',
                   version = Some ''v1.0.0''\<rparr>]\<rparr>
     = Inr ()"
  by (simp add: normalizeBuild_def parse_build_def nth_opt_def
      validateIfRemoveCommand_def invalid_build_def match_word_def is_word_def semver_here_def is_digit_def)

section \<open>Publishing assets: the entries of the result\<close>






section \<open>The update URL of a Windows build\<close>

lemma prefix_overlap:
  assumes "p \<notin> set ps" and "\<not> sublist (p # ps) (c # cs)"
  shows "\<not> prefix (p # ps) (c # cs @ p # ps)"
proof
  assume pre: "prefix (p # ps) (c # cs @ p # ps)"
  then have c: "c = p" and tl: "prefix ps (cs @ p # ps)"
    by auto
  show False
  proof (cases "length ps \<le> length cs")
    case True
    from tl obtain r where r: "cs @ p # ps = ps @ r"
      by (auto simp: prefix_def)
    then have "take (length ps) cs = ps"
      using True by (metis append_eq_conv_conj take_append diff_is_0_eq' take_0 append_Nil2)
    then have "prefix ps cs"
      by (metis take_is_prefix)
    then have "prefix (p # ps) (c # cs)"
      using c by simp
    then show False
      using assms(2) by (auto dest: prefix_imp_sublist)
  next
    case False
    then have lt: "length cs < length ps" by simp
    from tl obtain r where r: "cs @ p # ps = ps @ r"
      by (auto simp: prefix_def)
    have "(cs @ p # ps) ! length cs = p" by simp
    moreover have "(ps @ r) ! length cs = ps ! length cs"
      using lt by (simp add: nth_append)
    ultimately have "ps ! length cs = p"
      using r by simp
    then have "p \<in> set ps"
      using lt by (metis nth_mem)
    then show False
      using assms(1) by simp
  qed
qed

lemma replace_first_suffix:
  assumes "p \<notin> set ps" and "\<not> sublist (p # ps) u"
  shows "replace_first (p # ps) rep (u @ p # ps) = u @ rep"
  using assms(2)
proof (induction u)
  case Nil
  then show ?case by simp
next
  case (Cons c cs)
  have np: "\<not> prefix (p # ps) (c # cs @ p # ps)"
    using prefix_overlap [OF assms(1) Cons.prems] .
  have "\<not> sublist (p # ps) cs"
    using Cons.prems by (auto simp: sublist_Cons_right)
  then have "replace_first (p # ps) rep (cs @ p # ps) = cs @ rep"
    by (rule Cons.IH)
  moreover have "replace_first (p # ps) rep ((c # cs) @ p # ps)
                   = c # replace_first (p # ps) rep (cs @ p # ps)"
    using np by (simp del: Cons_prefix_Cons)
  ultimately show ?case
    by simp
qed

text \<open>
  Where the suffix is the only occurrence, the code removes it: for a build with platform
  \<^verbatim>\<open>win32\<close> whose \<^verbatim>\<open>metaFile\<close> URL and local mirror path end in
  \<^verbatim>\<open>/RELEASES\<close> and hold \<^verbatim>\<open>/RELEASES\<close> nowhere before that, the fields
  \<^verbatim>\<open>update\<close> and \<^verbatim>\<open>update-local\<close> of the manifest record are that URL and
  that path without the trailing \<^verbatim>\<open>/RELEASES\<close>, everything before it kept.
\<close>

lemma publish_data_win32_strips_RELEASES:
  assumes "platform b = Some ''win32''"
    and "asset_url a ''metaFile'' = JStr (u @ ''/RELEASES'')"
    and "\<not> sublist ''/RELEASES'' u"
    and "asset_local a ''metaFile'' = JStr (l @ ''/RELEASES'')"
    and "\<not> sublist ''/RELEASES'' l"
  shows "\<exists>d. publish_data user_fields b a = Inr (JObj d)
           \<and> map_of d ''update'' = Some (JStr u)
           \<and> map_of d ''update-local'' = Some (JStr l)"
proof -
  have nin: "CHR ''/'' \<notin> set ''RELEASES''" by simp
  have su: "strip_releases (JStr (u @ ''/RELEASES'')) = Inr (JStr u)"
    using replace_first_suffix [OF nin, of u "[]"] assms(3) by simp
  have sl: "strip_releases (JStr (l @ ''/RELEASES'')) = Inr (JStr l)"
    using replace_first_suffix [OF nin, of l "[]"] assms(5) by simp
  let ?data = "assign (assign [] user_fields)
                   [(''update'', asset_url a ''update''),
                    (''update-local'', asset_local a ''update''),
                    (''install'', asset_url a ''install''),
                    (''install-local'', asset_local a ''install''),
                    (''version'', to_jsval (version b))]"
  let ?d = "AList.update ''update-local'' (JStr l) (AList.update ''update'' (JStr u) ?data)"
  have pd: "publish_data user_fields b a = Inr (JObj ?d)"
    using assms(1,2,4) su sl by (simp add: publish_data_def)
  show ?thesis
    using pd by (intro exI [of _ ?d]) (simp add: map_of_update_same map_of_update_other)
qed

lemma publish_data_win32_strips_RELEASES_example:
  "platform \<lparr>platform = Some ''win32'', arch = Some ''x64'', channel = Some ''prod'',
             version = Some ''1.2.3'', assets = [(''metaFile'', ''./RELEASES'')]\<rparr>
     = Some ''win32''
   \<and> \<not> sublist ''/RELEASES'' ''http://h/win32-x64-prod-v1.2.3''
   \<and> \<not> sublist ''/RELEASES'' ''win32-x64-prod-v1.2.3''
   \<and> (\<exists>d. publish_data [(''notes'', JStr ''first'')]
              \<lparr>platform = Some ''win32'', arch = Some ''x64'', channel = Some ''prod'',
               version = Some ''1.2.3'', assets = [(''metaFile'', ''./RELEASES'')]\<rparr>
              \<lparr>urls = [(''metaFile'', JStr ''http://h/win32-x64-prod-v1.2.3/RELEASES'')],
               local = [(''metaFile'', ''win32-x64-prod-v1.2.3/RELEASES'')]\<rparr>
            = Inr (JObj d)
          \<and> map_of d ''update'' = Some (JStr ''http://h/win32-x64-prod-v1.2.3'')
          \<and> map_of d ''update-local'' = Some (JStr ''win32-x64-prod-v1.2.3''))"
proof -
  let ?b = "\<lparr>platform = Some ''win32'', arch = Some ''x64'', channel = Some ''prod'',
             version = Some ''1.2.3'', assets = [(''metaFile'', ''./RELEASES'')]\<rparr>"
  let ?a = "\<lparr>urls = [(''metaFile'', JStr ''http://h/win32-x64-prod-v1.2.3/RELEASES'')],
             local = [(''metaFile'', ''win32-x64-prod-v1.2.3/RELEASES'')]\<rparr>"
  have h1: "platform ?b = Some ''win32''"
    by simp
  have h2: "asset_url ?a ''metaFile'' = JStr (''http://h/win32-x64-prod-v1.2.3'' @ ''/RELEASES'')"
    by (simp add: asset_url_def)
  have h3: "\<not> sublist ''/RELEASES'' ''http://h/win32-x64-prod-v1.2.3''"
    by (simp add: sublist_Cons_right)
  have h4: "asset_local ?a ''metaFile'' = JStr (''win32-x64-prod-v1.2.3'' @ ''/RELEASES'')"
    by (simp add: asset_local_def)
  have h5: "\<not> sublist ''/RELEASES'' ''win32-x64-prod-v1.2.3''"
    by (simp add: sublist_Cons_right)
  from publish_data_win32_strips_RELEASES [OF h1 h2 h3 h4 h5, of "[(''notes'', JStr ''first'')]"]
  show ?thesis
    using h1 h3 h5 by blast
qed

text \<open>
  C7, on the code. The \<^verbatim>\<open>update\<close> field of a \<^verbatim>\<open>win32\<close> build is meant to be
  the \<^verbatim>\<open>metaFile\<close> URL without its trailing \<^verbatim>\<open>/RELEASES\<close>, but
  \<^verbatim>\<open>replace\<close> with a string pattern removes the first occurrence. When the files
  are hosted under a remote URL that itself holds \<^verbatim>\<open>/RELEASES\<close>, that occurrence
  goes and the trailing one stays: the field names the \<^verbatim>\<open>RELEASES\<close> file at a
  place where there is none.
\<close>

theorem publish_data_win32_strips_first_RELEASES:
  "publish_data [(''notes'', JStr ''first'')]
     \<lparr>platform = Some ''win32'', arch = Some ''x64'', channel = Some ''prod'',
      version = Some ''1.0.0'', assets = [(''metaFile'', ''dist/RELEASES'')]\<rparr>
     \<lparr>urls = [(''metaFile'', JStr ''http://h/RELEASES/win32-x64-prod-v1.0.0/RELEASES'')],
      local = [(''metaFile'', ''win32-x64-prod-v1.0.0/RELEASES'')]\<rparr>
   = Inr (JObj [(''notes'', JStr ''first''),
                (''update'', JStr ''http://h/win32-x64-prod-v1.0.0/RELEASES''),
                (''update-local'', JStr ''win32-x64-prod-v1.0.0''),
                (''install'', JUndefined), (''install-local'', JUndefined),
                (''version'', JStr ''1.0.0'')])"
  by (simp add: publish_data_def assign_def asset_url_def asset_local_def)

section \<open>Publishing assets: one upload for each path\<close>















end
